theory Spec2Isabelle
  imports Main "HOL-Library.Sublist"
begin

section \<open>Data model\<close>

text \<open>
  Go byte slices and Go strings are both byte sequences; conversions between them
  (\<^verbatim>\<open>string(b)\<close>, \<^verbatim>\<open>[]byte(s)\<close>) copy the bytes unchanged, so both are
  modelled by \<^typ>\<open>string\<close> (a list of 8-bit characters).
\<close>

type_synonym bytes = string

text \<open>
  \<^verbatim>\<open>map[string][]string\<close>, which is also the representation of
  \<^verbatim>\<open>textproto.MIMEHeader\<close> and \<^verbatim>\<open>mail.Header\<close>.
\<close>

type_synonym header = "string \<rightharpoonup> string list"

text \<open>
  A Go \<^verbatim>\<open>error\<close> value is either the sentinel \<^verbatim>\<open>io.EOF\<close> (compared by identity in
  \<^verbatim>\<open>parseBody\<close>) or some other error, of which the program only ever observes the text
  returned by \<^verbatim>\<open>Error()\<close>.
\<close>

datatype error = EOF | Err string

fun Error :: "error \<Rightarrow> string" where
  "Error EOF = ''EOF''"
| "Error (Err s) = s"

text \<open>\<^verbatim>\<open>type Part struct\<close> of multipart.go.\<close>

record Part =
  Type :: string
  Charset :: string
  Data :: bytes
  Headers :: header

text \<open>
  What \<^verbatim>\<open>parseBody\<close> reads of one \<^verbatim>\<open>*multipart.Part\<close> returned by
  \<^verbatim>\<open>NextPart\<close>: its \<^verbatim>\<open>Header\<close> field and the bytes that \<^verbatim>\<open>io.ReadAll(p)\<close> yields.
\<close>

record segment =
  Header :: header
  Content :: bytes

text \<open>\<^verbatim>\<open>type token []byte\<close>, the element type of the lexer's output.\<close>

type_synonym token = bytes

text \<open>
  Modelled from the spec: the type \<^verbatim>\<open>Address\<close> is declared in a file that is not
  among the sources. Section 3 of the specification: an Address is either a Mailbox
  (optional display name, local part, domain) or a Group (group name, ordered list of
  Mailbox).
\<close>

datatype mailbox = MailboxOf "string option" string string

datatype Address = Mailbox mailbox | Group string "mailbox list"

text \<open>\<^verbatim>\<open>time.Time\<close> is opaque to the code; the zero value is \<^term>\<open>0::int\<close>.\<close>

type_synonym Time = int

text \<open>
  \<^verbatim>\<open>type Attachment struct\<close> and \<^verbatim>\<open>type Message struct\<close> of message.go. A field
  whose name is already that of a field of another struct carries the struct's initial:
  \<^verbatim>\<open>Attachment.Data\<close> is \<open>AData\<close>, \<^verbatim>\<open>Message.Headers\<close> and \<^verbatim>\<open>Message.Body\<close> are
  \<open>MHeaders\<close> and \<open>MBody\<close>.
\<close>

record Attachment =
  Filename :: string
  AData :: bytes

record Message =
  MHeaders :: bytes
  MBody :: bytes
  ParsedHeaders :: header
  MessageID :: string
  Date :: Time
  Sender :: "Address option"
  From :: "Address list"
  ReplyTo :: "Address list"
  To :: "Address list"
  Cc :: "Address list"
  Bcc :: "Address list"
  Subject :: string
  ContentType :: string
  Comments :: "string list"
  Keywords :: "string list"
  InReply :: "string list"
  References :: "string list"
  Text :: string
  Html :: string
  Attachments :: "Attachment list"
  Parts :: "Part list"

text \<open>The zero value of \<^verbatim>\<open>Message\<close>, with which the named result \<^verbatim>\<open>msg\<close> starts.\<close>

definition zeroMessage :: Message where
  "zeroMessage =
     \<lparr>MHeaders = [], MBody = [], ParsedHeaders = Map.empty, MessageID = [], Date = 0,
      Sender = None, From = [], ReplyTo = [], To = [], Cc = [], Bcc = [], Subject = [],
      ContentType = [], Comments = [], Keywords = [], InReply = [], References = [],
      Text = [], Html = [], Attachments = [], Parts = []\<rparr>"

text \<open>
  The argument of \<^verbatim>\<open>handleMessage\<close>, as that function reads it: the ordered raw header
  fields with their \<^verbatim>\<open>Key\<close> and \<^verbatim>\<open>Value\<close>, and the \<^verbatim>\<open>Body\<close>.
\<close>

record RawHeader =
  Key :: bytes
  Value :: bytes

record RawMessage =
  RawHeaders :: "RawHeader list"
  Body :: bytes

text \<open>A run-time panic of the Go program: an index expression out of range.\<close>

datatype panic = IndexOutOfRange

section \<open>Library functions used by the code\<close>

text \<open>
  The functions of the Go standard library, and the functions of this package that are
  defined in other files, are parameters of the model. Each field has the result shape
  that the calling code observes: a sum where the code looks at the value only if the
  error is nil, a pair where it uses the value next to a non-nil error.
\<close>

record env =
  ParseMediaType :: "string \<Rightarrow> error + (string \<times> (string \<rightharpoonup> string))"
    \<comment> \<open>\<^verbatim>\<open>mime.ParseMediaType\<close>: media type and parameter map\<close>
  ReadMessage :: "bytes \<Rightarrow> error + header"
    \<comment> \<open>\<^verbatim>\<open>mail.ReadMessage\<close>, of which only \<^verbatim>\<open>m.Header\<close> is used\<close>
  ToLower :: "string \<Rightarrow> string"
    \<comment> \<open>\<^verbatim>\<open>strings.ToLower\<close>\<close>
  TrimSpace :: "string \<Rightarrow> string"
    \<comment> \<open>\<^verbatim>\<open>strings.TrimSpace\<close>\<close>
  Fields :: "string \<Rightarrow> string list"
    \<comment> \<open>\<^verbatim>\<open>strings.Fields\<close>\<close>
  DecodeString :: "string \<Rightarrow> bytes \<times> error option"
    \<comment> \<open>\<^verbatim>\<open>base64.StdEncoding.DecodeString\<close>: the bytes decoded so far and the error\<close>
  QPReadAll :: "bytes \<Rightarrow> bytes"
    \<comment> \<open>\<^verbatim>\<open>io.ReadAll(quotedprintable.NewReader(...))\<close>, whose error the code drops\<close>
  ParseDate :: "string \<Rightarrow> Time"
  ParseAddress :: "bytes \<Rightarrow> Address option \<times> error option"
  Decode :: "bytes \<Rightarrow> bytes \<times> error option"
  UTF8 :: "string \<Rightarrow> bytes \<Rightarrow> error + bytes"
  decodeRFC2047 :: "bytes \<Rightarrow> error + string"
  tokenize :: "bytes \<Rightarrow> error + token list"
  parseAddress :: "token list \<Rightarrow> error + Address"
  ParseRaw :: "bytes \<Rightarrow> error + RawMessage"
    \<comment> \<open>the splitter of the raw message into header fields and body\<close>

text \<open>
  \<^verbatim>\<open>multipart.NewReader(bytes.NewReader(body), boundary)\<close> followed by repeated
  \<^verbatim>\<open>NextPart\<close> calls: the parts returned with a nil error, in order, and the first
  non-nil error. Every part's content is cut out of \<^verbatim>\<open>body\<close> between two delimiter
  lines, so it is strictly shorter than \<^verbatim>\<open>body\<close>; the type records this.
\<close>

typedef mpreader =
  "{f :: string \<Rightarrow> bytes \<Rightarrow> segment list \<times> error.
      \<forall>boundary body. \<forall>p \<in> set (fst (f boundary body)). length (Content p) < length body}"
  by (rule exI [of _ "\<lambda>_ _. ([], EOF)"]) simp

setup_lifting type_definition_mpreader

definition NextParts :: "mpreader \<Rightarrow> string \<Rightarrow> bytes \<Rightarrow> segment list" where
  "NextParts r boundary body = fst (Rep_mpreader r boundary body)"

definition NextPartErr :: "mpreader \<Rightarrow> string \<Rightarrow> bytes \<Rightarrow> error" where
  "NextPartErr r boundary body = snd (Rep_mpreader r boundary body)"


text \<open>\<^verbatim>\<open>h.Values(key)\<close> for a canonical key, and \<^verbatim>\<open>m[key]\<close> with the zero value.\<close>

definition Values :: "header \<Rightarrow> string \<Rightarrow> string list" where
  "Values h k = (case h k of None \<Rightarrow> [] | Some vs \<Rightarrow> vs)"

definition param :: "(string \<rightharpoonup> string) \<Rightarrow> string \<Rightarrow> string" where
  "param ps k = (case ps k of None \<Rightarrow> [] | Some v \<Rightarrow> v)"

text \<open>\<^verbatim>\<open>strings.Contains(s, sub)\<close> and \<^verbatim>\<open>bytes.Contains\<close>.\<close>

fun Contains :: "string \<Rightarrow> string \<Rightarrow> bool" where
  "Contains [] sub = (sub = [])"
| "Contains (c # cs) sub = (prefix sub (c # cs) \<or> Contains cs sub)"

subsection \<open>The regular expression \<^verbatim>\<open>(?is)charset=(.*)\<close>\<close>

text \<open>
  Under the flag \<^verbatim>\<open>i\<close> a literal letter matches every rune of its simple case-folding
  orbit. For the letters of \<^verbatim>\<open>charset\<close> these are the two ASCII cases, and for
  \<^verbatim>\<open>s\<close> also U+017F (bytes C5 BF in UTF-8). \<^verbatim>\<open>foldMatch pat s\<close> is the rest of
  \<^verbatim>\<open>s\<close> after a match of the literal \<^verbatim>\<open>pat\<close> at its start; the literal is given
  by the lower and the upper case of each of its characters.
\<close>

fun foldMatch :: "(char \<times> char) list \<Rightarrow> string \<Rightarrow> string option" where
  "foldMatch [] s = Some s"
| "foldMatch ((lo, up) # ps) [] = None"
| "foldMatch ((lo, up) # ps) (c # cs) =
     (if c = lo \<or> c = up then foldMatch ps cs
      else if lo = CHR ''s'' \<and> c = CHR 0xC5 \<and> cs \<noteq> [] \<and> hd cs = CHR 0xBF
        then foldMatch ps (tl cs)
      else None)"

text \<open>
  \<^verbatim>\<open>FindStringSubmatch\<close>: the leftmost match; the group \<^verbatim>\<open>(.*)\<close> is greedy and,
  under the flag \<^verbatim>\<open>s\<close>, takes everything up to the end of the string. The result is
  the submatch of index 1, \<^term>\<open>None\<close> when the expression does not match (the nil slice).
\<close>

fun findCharset :: "string \<Rightarrow> string option" where
  "findCharset [] = None"
| "findCharset (c # cs) =
     (case foldMatch (zip ''charset='' ''CHARSET='') (c # cs) of
        Some rest \<Rightarrow> Some rest
      | None \<Rightarrow> findCharset cs)"

section \<open>multipart.go\<close>

text \<open>Lines 51 to 59: the found headers are copied first, then every entry of \<^verbatim>\<open>ph\<close>
  is stored over them.\<close>

definition mergeHeaders :: "header \<Rightarrow> header \<Rightarrow> header" where
  "mergeHeaders found ph = (\<lambda>k. case ph k of Some v \<Rightarrow> Some v | None \<Rightarrow> found k)"

text \<open>Lines 87 to 92: the part emitted for a segment whose own decomposition failed.\<close>

definition fallbackPart :: "segment \<Rightarrow> Part" where
  "fallbackPart p =
     (let ct = hd (Values (Header p) ''Content-Type'');
          charset = (case findCharset ct of Some c \<Rightarrow> c | None \<Rightarrow> ''UTF-8'')
      in \<lparr>Type = ct, Charset = charset, Data = Content p, Headers = Header p\<rparr>)"

text \<open>Lines 99 to 103: what becomes of the error that ended the loop.\<close>

definition afterLoop :: "error \<Rightarrow> error option" where
  "afterLoop err =
     (if err = EOF then None
      else if Error err = ''multipart: NextPart: EOF'' then None
      else Some err)"

text \<open>
  \<^verbatim>\<open>parseBody\<close> returns both of its named results, so the model returns the pair.
  The \<^verbatim>\<open>for err == nil\<close> loop visits the parts of the reader in order and appends to
  \<^verbatim>\<open>parts\<close>; the error left after the loop is the one of the last \<^verbatim>\<open>NextPart\<close>.
\<close>

function parseBody ::
  "env \<Rightarrow> mpreader \<Rightarrow> string \<Rightarrow> bytes \<Rightarrow> header \<Rightarrow> Part list \<times> error option" where
  "parseBody E r ct body ph =
     (case ParseMediaType E ct of
        Inl err \<Rightarrow> ([], Some err)
      | Inr (mt, ps) \<Rightarrow>
          (case ps ''boundary'' of
             None \<Rightarrow>
               if prefix ''multipart'' mt
               then ([], Some (Err ''multipart specified without boundary''))
               else (case ReadMessage E ([CHR 0x0D, CHR 0x0A] @ body) of
                       Inl err \<Rightarrow> ([], Some err)
                     | Inr found \<Rightarrow>
                         ([\<lparr>Type = mt, Charset = param ps ''charset'', Data = body,
                            Headers = mergeHeaders found ph\<rparr>], None))
           | Some boundary \<Rightarrow>
               (concat (map (\<lambda>p.
                   if length (Values (Header p) ''Content-Type'') = 0 then []
                   else (case parseBody E r (hd (Values (Header p) ''Content-Type''))
                                 (Content p) (Header p) of
                           (subparts, None) \<Rightarrow> subparts
                         | (subparts, Some err) \<Rightarrow> [fallbackPart p]))
                  (NextParts r boundary body)),
                afterLoop (NextPartErr r boundary body))))"
  by pat_completeness auto
termination
proof (relation "measure (\<lambda>(E, r, ct, body, ph). length body)", goal_cases)
  case 1
  show ?case by simp
next
  case (2 E r ct body ph x2 x y x2a p)
  have "\<forall>q \<in> set (fst (Rep_mpreader r x2a body)). length (Content q) < length body"
    using Rep_mpreader [of r] by blast
  with 2 show ?case by (simp add: NextParts_def)
qed


text \<open>
  The parts that one iteration of the loop (lines 74 to 94) appends for the segment
  \<^verbatim>\<open>p\<close>.
\<close>

definition segmentParts :: "env \<Rightarrow> mpreader \<Rightarrow> segment \<Rightarrow> Part list" where
  "segmentParts E r p =
     (if length (Values (Header p) ''Content-Type'') = 0 then []
      else (case parseBody E r (hd (Values (Header p) ''Content-Type'')) (Content p) (Header p) of
              (subparts, None) \<Rightarrow> subparts
            | (subparts, Some err) \<Rightarrow> [fallbackPart p]))"

text \<open>
  The number of activations of \<^verbatim>\<open>parseBody\<close> that are on the call stack at the deepest
  point of the call \<^verbatim>\<open>parseBody(ct, body, ph)\<close>: the recursion follows the one of
  \<^verbatim>\<open>parseBody\<close>.
\<close>

function nesting :: "env \<Rightarrow> mpreader \<Rightarrow> string \<Rightarrow> bytes \<Rightarrow> nat" where
  "nesting E r ct body =
     (case ParseMediaType E ct of
        Inl err \<Rightarrow> 1
      | Inr (mt, ps) \<Rightarrow>
          (case ps ''boundary'' of
             None \<Rightarrow> 1
           | Some boundary \<Rightarrow>
               Suc (foldr max
                 (map (\<lambda>p. if length (Values (Header p) ''Content-Type'') = 0 then 0
                            else nesting E r (hd (Values (Header p) ''Content-Type'')) (Content p))
                    (NextParts r boundary body)) 0)))"
  by pat_completeness auto
termination
proof (relation "measure (\<lambda>(E, r, ct, body). length body)", goal_cases)
  case 1
  show ?case by simp
next
  case (2 E r ct body x2 x y x2a p)
  have "\<forall>q \<in> set (fst (Rep_mpreader r x2a body)). length (Content q) < length body"
    using Rep_mpreader [of r] by blast
  with 2 show ?case by (simp add: NextParts_def)
qed

section \<open>message.go\<close>

subsection \<open>Byte-level helpers of the standard library\<close>

text \<open>
  \<^verbatim>\<open>strings.Trim(s, cutset)\<close> and \<^verbatim>\<open>bytes.Trim\<close> for a cutset of ASCII characters,
  which Go trims byte by byte.
\<close>

definition Trim :: "string \<Rightarrow> string \<Rightarrow> string" where
  "Trim s cutset =
     rev (dropWhile (\<lambda>c. c \<in> set cutset) (rev (dropWhile (\<lambda>c. c \<in> set cutset) s)))"

text \<open>\<^verbatim>\<open>strings.Split(s, sep)\<close> for a separator of one ASCII character.\<close>

fun splitAt :: "char \<Rightarrow> string \<Rightarrow> string \<Rightarrow> string list" where
  "splitAt sep cur [] = [cur]"
| "splitAt sep cur (c # cs) =
     (if c = sep then cur # splitAt sep [] cs else splitAt sep (cur @ [c]) cs)"

definition Split :: "string \<Rightarrow> char \<Rightarrow> string list" where
  "Split s sep = splitAt sep [] s"

text \<open>
  The regular expression \<^verbatim>\<open>(?msi)name="(.*?)"\<close>: the leftmost match, whose group is the
  shortest text up to a closing quote (any character, line feeds included). The result
  is the submatch of index 1, \<^term>\<open>None\<close> when the expression does not match.
\<close>

fun findFilename :: "string \<Rightarrow> string option" where
  "findFilename [] = None"
| "findFilename (c # cs) =
     (case foldMatch (zip ''name='' ''NAME='' @ [(CHR 0x22, CHR 0x22)]) (c # cs) of
        Some rest \<Rightarrow>
          if CHR 0x22 \<in> set rest then Some (takeWhile (\<lambda>x. x \<noteq> CHR 0x22) rest)
          else findFilename cs
      | None \<Rightarrow> findFilename cs)"

subsection \<open>Address lists\<close>

text \<open>
  \<^verbatim>\<open>split\<close>: \<open>cur\<close> is \<^verbatim>\<open>ts[l:i]\<close>, the tokens since the last separator. The final
  test \<^verbatim>\<open>l != len(ts)\<close> holds exactly when that rest is not empty.
\<close>

fun splitFrom :: "token list \<Rightarrow> token list \<Rightarrow> token \<Rightarrow> token list list" where
  "splitFrom cur [] s = (if cur \<noteq> [] then [cur] else [])"
| "splitFrom cur (t # ts) s =
     (if t = s then cur # splitFrom [] ts s else splitFrom (cur @ [t]) ts s)"

definition split :: "token list \<Rightarrow> token \<Rightarrow> token list list" where
  "split ts s = splitFrom [] ts s"

text \<open>
  The first loop of \<^verbatim>\<open>parseAddressList\<close> over \<^verbatim>\<open>stb\<close>, with the accumulator \<^verbatim>\<open>lsb\<close>;
  the result is \<^verbatim>\<open>vsb\<close>. The index \<^verbatim>\<open>i\<close> is \<^verbatim>\<open>len(stb)-1\<close> exactly when no run
  follows.
\<close>

fun groupRuns :: "token list \<Rightarrow> token list list \<Rightarrow> token list list" where
  "groupRuns lsb [] = []"
| "groupRuns lsb (t # rest) =
     (let fc = concat t;
          lsb1 = lsb @ t;
          lsb2 = (if rest \<noteq> [] \<and> \<not> Contains fc ''@'' then lsb1 @ ['',''] else lsb1)
      in if Contains fc ''@'' \<or> rest = [] then lsb2 # groupRuns [] rest
         else groupRuns lsb2 rest)"

text \<open>The second loop: every run of \<^verbatim>\<open>vsb\<close> is parsed, the first error ends the loop.\<close>

fun parseRuns :: "env \<Rightarrow> Address list \<Rightarrow> token list list \<Rightarrow> Address list \<times> error option" where
  "parseRuns E al [] = (al, None)"
| "parseRuns E al (ts # rest) =
     (case parseAddress E ts of
        Inl e \<Rightarrow> (al, Some e)
      | Inr a \<Rightarrow> parseRuns E (al @ [a]) rest)"

definition parseAddressList :: "env \<Rightarrow> bytes \<Rightarrow> Address list \<times> error option" where
  "parseAddressList E s =
     (let s1 = (case decodeRFC2047 E s of Inr dd \<Rightarrow> dd | Inl e \<Rightarrow> s)
      in case tokenize E s1 of
           Inl e \<Rightarrow> ([], Some e)
         | Inr ts \<Rightarrow> parseRuns E [] (groupRuns [] (split ts '','')))"

subsection \<open>Transfer decoding\<close>

text \<open>
  \<^verbatim>\<open>decodeContentTransferEncoding\<close>. The index expression \<^verbatim>\<open>headerEncoding[0]\<close>
  panics on an empty list. In the \<^verbatim>\<open>base64\<close> case the result of \<^verbatim>\<open>DecodeString\<close>
  is assigned to \<^verbatim>\<open>decoded\<close> before the error is looked at.
\<close>

definition firstValue :: "string list \<Rightarrow> panic + string" where
  "firstValue vs = (case vs of [] \<Rightarrow> Inl IndexOutOfRange | v # _ \<Rightarrow> Inr v)"

definition decodeContentTransferEncoding ::
  "env \<Rightarrow> header \<Rightarrow> header \<Rightarrow> bytes \<Rightarrow> panic + (bytes \<times> error option)" where
  "decodeContentTransferEncoding E msgHeaders partHeaders toDecode =
     (case (case partHeaders ''Content-Transfer-Encoding'' of
              Some headerEncoding \<Rightarrow> map_sum id (ToLower E) (firstValue headerEncoding)
            | None \<Rightarrow>
                (case msgHeaders ''Content-Transfer-Encoding'' of
                   Some headerEncoding \<Rightarrow> map_sum id (ToLower E) (firstValue headerEncoding)
                 | None \<Rightarrow> Inr [])) of
        Inl p \<Rightarrow> Inl p
      | Inr encoding \<Rightarrow>
          if ToLower E encoding = ''base64'' then
            (case DecodeString E toDecode of
               (decoded, Some err) \<Rightarrow>
                 Inr (decoded,
                   Some (Err (''body parser: failed decode base64 [msg: '' @ Error err @ '']'')))
             | (decoded, None) \<Rightarrow> Inr (decoded, None))
          else if ToLower E encoding = ''quoted-printable'' then
            Inr (QPReadAll E toDecode, None)
          else Inr (toDecode, None))"

subsection \<open>\<^verbatim>\<open>handleMessage\<close>: the headers\<close>

text \<open>The \<^verbatim>\<open>switch\<close> over the lower-cased header name, with the value left in \<^verbatim>\<open>err\<close>.\<close>

definition headerSwitch :: "env \<Rightarrow> Message \<Rightarrow> RawHeader \<Rightarrow> Message \<times> error option" where
  "headerSwitch E msg rh =
     (let k = ToLower E (Key rh); v = Value rh in
      if k = ''content-type'' then (msg\<lparr>ContentType := v\<rparr>, None)
      else if k = ''message-id'' then (msg\<lparr>MessageID := Trim v ''<>''\<rparr>, None)
      else if k = ''in-reply-to'' then
        (msg\<lparr>InReply := InReply msg @ map (\<lambda>id. Trim id ''<> '') (Fields E v)\<rparr>, None)
      else if k = ''references'' then
        (msg\<lparr>References := References msg @ map (\<lambda>id. Trim id ''<> '') (Fields E v)\<rparr>, None)
      else if k = ''date'' then (msg\<lparr>Date := ParseDate E v\<rparr>, None)
      else if k = ''from'' then
        (case parseAddressList E v of (al, err) \<Rightarrow> (msg\<lparr>From := al\<rparr>, err))
      else if k = ''sender'' then
        (case ParseAddress E v of (a, err) \<Rightarrow> (msg\<lparr>Sender := a\<rparr>, err))
      else if k = ''reply-to'' then
        (case parseAddressList E v of (al, err) \<Rightarrow> (msg\<lparr>ReplyTo := al\<rparr>, err))
      else if k = ''to'' then
        (case parseAddressList E v of (al, err) \<Rightarrow> (msg\<lparr>To := al\<rparr>, err))
      else if k = ''cc'' then
        (case parseAddressList E v of (al, err) \<Rightarrow> (msg\<lparr>Cc := al\<rparr>, err))
      else if k = ''bcc'' then
        (case parseAddressList E v of (al, err) \<Rightarrow> (msg\<lparr>Bcc := al\<rparr>, err))
      else if k = ''subject'' then
        (case Decode E v of (subject, e) \<Rightarrow> (msg\<lparr>Subject := subject\<rparr>, e))
      else if k = ''comments'' then (msg\<lparr>Comments := Comments msg @ [v]\<rparr>, None)
      else if k = ''keywords'' then
        (msg\<lparr>Keywords := Keywords msg @ map (TrimSpace E) (Split v CHR '','')\<rparr>, None)
      else (msg, None))"

text \<open>One iteration of the loop over \<^verbatim>\<open>r.RawHeaders\<close>, and the loop.\<close>

definition handleHeader ::
  "env \<Rightarrow> Message \<times> error list \<Rightarrow> RawHeader \<Rightarrow> Message \<times> error list" where
  "handleHeader E st rh =
     (case st of (msg, errors) \<Rightarrow>
        (let msg1 = msg\<lparr>ParsedHeaders :=
                     (ParsedHeaders msg)(Key rh \<mapsto> Values (ParsedHeaders msg) (Key rh) @ [Value rh])\<rparr>
         in case headerSwitch E msg1 rh of
              (msg2, None) \<Rightarrow> (msg2, errors)
            | (msg2, Some err) \<Rightarrow> (msg2, errors @ [Err (''header parser: '' @ Error err)])))"

definition handleHeaders :: "env \<Rightarrow> RawMessage \<Rightarrow> Message \<times> error list" where
  "handleHeaders E r =
     (case foldl (handleHeader E) (zeroMessage, []) (RawHeaders r) of (msg, errors) \<Rightarrow>
        (if Sender msg = None \<and> length (From msg) > 0
         then msg\<lparr>Sender := Some (hd (From msg))\<rparr> else msg, errors))"

subsection \<open>\<^verbatim>\<open>handleMessage\<close>: the parts\<close>

text \<open>
  One iteration of \<^verbatim>\<open>for k, part := range parts\<close>. The variable \<^verbatim>\<open>part\<close> is a copy of
  \<^verbatim>\<open>parts[k]\<close>; the element of the slice changes only through \<^verbatim>\<open>parts[k].Data = data\<close>.
  The result is the message, the element \<^verbatim>\<open>parts[k]\<close> after the iteration and the
  error list.
\<close>

definition appendErr :: "error list \<Rightarrow> error option \<Rightarrow> error list" where
  "appendErr errors e = (case e of None \<Rightarrow> errors | Some x \<Rightarrow> errors @ [x])"

definition handlePart ::
  "env \<Rightarrow> Message \<Rightarrow> error list \<Rightarrow> Part \<Rightarrow> panic + (Message \<times> Part \<times> error list)" where
  "handlePart E msg errors part =
     (if Contains (Type part) ''text/plain'' then
        (case decodeContentTransferEncoding E (ParsedHeaders msg) (Headers part) (Data part) of
           Inl p \<Rightarrow> Inl p
         | Inr (decoded, e) \<Rightarrow>
             (case UTF8 E (Charset part) decoded of
                Inl e2 \<Rightarrow> Inr (msg\<lparr>Text := decoded\<rparr>, part, appendErr errors e)
              | Inr data \<Rightarrow> Inr (msg\<lparr>Text := data\<rparr>, part\<lparr>Data := data\<rparr>, appendErr errors e)))
      else if Contains (Type part) ''text/html'' then
        (case decodeContentTransferEncoding E (ParsedHeaders msg) (Headers part) (Data part) of
           Inl p \<Rightarrow> Inl p
         | Inr (decoded, e) \<Rightarrow>
             (case UTF8 E (Charset part) decoded of
                Inl e2 \<Rightarrow> Inr (msg\<lparr>Html := decoded\<rparr>, part, appendErr errors e)
              | Inr data \<Rightarrow> Inr (msg\<lparr>Html := data\<rparr>, part\<lparr>Data := data\<rparr>, appendErr errors e)))
      else
        (case Headers part ''Content-Disposition'' of
           None \<Rightarrow> Inr (msg, part, errors)
         | Some cd \<Rightarrow>
             (case firstValue cd of
                Inl p \<Rightarrow> Inl p
              | Inr cd0 \<Rightarrow>
                  if Contains cd0 ''attachment'' then
                    (case findFilename cd0 of
                       None \<Rightarrow>
                         Inr (msg, part, errors @
                           [Err ''body parser: failed get filename from header Content-Disposition''])
                     | Some filename \<Rightarrow>
                         (let dec = Decode E filename;
                              errors1 = (case snd dec of
                                  Some e \<Rightarrow> errors @
                                    [Err (''body parser: failed decode filename of attachment [msg: ''
                                          @ Error e @ '']'')]
                                | None \<Rightarrow> errors);
                              filename1 = (case snd dec of Some e \<Rightarrow> filename | None \<Rightarrow> fst dec)
                          in case decodeContentTransferEncoding E (ParsedHeaders msg)
                                    (Headers part) (Data part) of
                               Inl p \<Rightarrow> Inl p
                             | Inr (decoded, e) \<Rightarrow>
                                 Inr (msg\<lparr>Attachments := Attachments msg @
                                         [\<lparr>Filename = filename1, AData = decoded\<rparr>]\<rparr>,
                                      part, appendErr errors1 e)))
                  else Inr (msg, part, errors))))"

text \<open>The loop over the parts; the second component is the slice \<^verbatim>\<open>parts\<close> after it.\<close>

fun handleParts ::
  "env \<Rightarrow> Message \<Rightarrow> error list \<Rightarrow> Part list \<Rightarrow> panic + (Message \<times> Part list \<times> error list)" where
  "handleParts E msg errors [] = Inr (msg, [], errors)"
| "handleParts E msg errors (part # rest) =
     (case handlePart E msg errors part of
        Inl p \<Rightarrow> Inl p
      | Inr (msg1, part1, errors1) \<Rightarrow>
          (case handleParts E msg1 errors1 rest of
             Inl p \<Rightarrow> Inl p
           | Inr (msg2, rest1, errors2) \<Rightarrow> Inr (msg2, part1 # rest1, errors2)))"

text \<open>
  Lines 140 to 218. \<^verbatim>\<open>parts[0]\<close> panics when the slice is empty; otherwise the message
  and the error list are returned.
\<close>

definition handleBody ::
  "env \<Rightarrow> mpreader \<Rightarrow> RawMessage \<Rightarrow> Message \<Rightarrow> error list \<Rightarrow> panic + (Message \<times> error list)" where
  "handleBody E rd r msg errors =
     (if ContentType msg \<noteq> [] then
        (case parseBody E rd (ContentType msg) (Body r) Map.empty of
           (parts, Some e) \<Rightarrow>
             Inr (msg\<lparr>Text := Body r\<rparr>, errors @ [Err (''body parser: '' @ Error e)])
         | (parts, None) \<Rightarrow>
             (case handleParts E msg errors parts of
                Inl p \<Rightarrow> Inl p
              | Inr (msg1, parts1, errors1) \<Rightarrow>
                  (case parts1 of
                     [] \<Rightarrow> Inl IndexOutOfRange
                   | p0 # _ \<Rightarrow>
                       Inr (msg1\<lparr>Parts := parts1, ContentType := Type p0, Text := Data p0\<rparr>,
                            errors1))))
      else Inr (msg\<lparr>Text := Body r\<rparr>, errors))"

definition handleMessage :: "env \<Rightarrow> mpreader \<Rightarrow> RawMessage \<Rightarrow> panic + (Message \<times> error list)" where
  "handleMessage E rd r =
     (case handleHeaders E r of (msg, errors) \<Rightarrow> handleBody E rd r msg errors)"

subsection \<open>\<^verbatim>\<open>extractHeaders\<close> and \<^verbatim>\<open>Parse\<close>\<close>

text \<open>
  \<^verbatim>\<open>bytes.Replace(s, old, nil, 1)\<close>: the first occurrence of \<^verbatim>\<open>old\<close> is removed; an
  empty \<^verbatim>\<open>old\<close> matches at the beginning and nothing changes. \<^verbatim>\<open>bytes.TrimSuffix\<close>
  removes the suffix when it is there.
\<close>

fun removeFirst :: "bytes \<Rightarrow> bytes \<Rightarrow> bytes" where
  "removeFirst old [] = []"
| "removeFirst old (c # cs) =
     (if prefix old (c # cs) then drop (length old) (c # cs) else c # removeFirst old cs)"

definition TrimSuffix :: "bytes \<Rightarrow> bytes \<Rightarrow> bytes" where
  "TrimSuffix s suf = (if suffix suf s then take (length s - length suf) s else s)"

definition extractHeaders :: "bytes \<Rightarrow> bytes \<Rightarrow> bytes" where
  "extractHeaders body data =
     foldl TrimSuffix (removeFirst body data)
       [[CHR 0x0A, CHR 0x0D, CHR 0x0A], [CHR 0x0D, CHR 0x0A, CHR 0x0A],
        [CHR 0x0D, CHR 0x0A], [CHR 0x0A, CHR 0x0D], [CHR 0x0A], [CHR 0x0D]]"

text \<open>
  \<^verbatim>\<open>Parse\<close>: an error of the raw splitter ends the parse with the zero message and one
  error; otherwise the results of \<^verbatim>\<open>handleMessage\<close> are returned with the body and
  the header block added.
\<close>

definition Parse :: "env \<Rightarrow> mpreader \<Rightarrow> bytes \<Rightarrow> panic + (Message \<times> error list)" where
  "Parse E rd data =
     (case ParseRaw E data of
        Inl err \<Rightarrow> Inr (zeroMessage, [Err (''raw parsing: '' @ Error err)])
      | Inr raw \<Rightarrow>
          (case handleMessage E rd raw of
             Inl p \<Rightarrow> Inl p
           | Inr (msg, errors) \<Rightarrow>
               Inr (msg\<lparr>MBody := Body raw, MHeaders := extractHeaders (Body raw) data\<rparr>,
                    errors)))"


section \<open>The address-list rule in the words of the specification\<close>

text \<open>
  Section 4.2: runs are accumulated until either an \<^verbatim>\<open>@\<close> is observed in the
  accumulated run or the run is the last one in the stream; only then is the run closed,
  and an elided comma is re-inserted into the accumulated stream when the split was
  suppressed. \<open>acc\<close> is the accumulated run. This definition follows the specification;
  \<^term>\<open>groupRuns\<close> is the code.
\<close>

fun closeRuns :: "token list \<Rightarrow> token list list \<Rightarrow> token list list" where
  "closeRuns acc [] = []"
| "closeRuns acc (run # rest) =
     (if Contains (concat (acc @ run)) ''@'' \<or> rest = [] then (acc @ run) # closeRuns [] rest
      else closeRuns (acc @ run @ ['','']) rest)"

section \<open>Concrete library behaviour for the examples\<close>

text \<open>
  A reader given by a function from boundary and body to the parts and the final error.
  Parts that are not shorter than the body are left out, so that every function gives a
  reader.
\<close>

lift_definition readerOf :: "(string \<Rightarrow> bytes \<Rightarrow> segment list \<times> error) \<Rightarrow> mpreader" is
  "\<lambda>f boundary body.
     (filter (\<lambda>p. length (Content p) < length body) (fst (f boundary body)),
      snd (f boundary body))"
  by simp

abbreviation crlf :: string where
  "crlf \<equiv> [CHR 0x0D, CHR 0x0A]"

text \<open>
  Bodies with the boundary \<^verbatim>\<open>b\<close>: two \<^verbatim>\<open>text/plain\<close> parts; one part whose base64 data
  is cut short by illegal characters; one part without any header; a part without
  \<^verbatim>\<open>Content-Type\<close> between two others; a part whose own type is multipart without a
  boundary, followed by a text part.
\<close>

definition bodyTwoPlain :: bytes where
  "bodyTwoPlain =
     ''--b'' @ crlf @ ''Content-Type: text/plain; charset=UTF-8'' @ crlf @ crlf @
     ''first'' @ crlf @
     ''--b'' @ crlf @ ''Content-Type: text/plain; charset=UTF-8'' @ crlf @ crlf @
     ''last'' @ crlf @ ''--b--'' @ crlf"

definition bodyBadBase64 :: bytes where
  "bodyBadBase64 =
     ''--b'' @ crlf @ ''Content-Type: text/plain; charset=UTF-8'' @ crlf @
     ''Content-Transfer-Encoding: base64'' @ crlf @ crlf @
     ''aGVsbG8h!!!!'' @ crlf @ ''--b--'' @ crlf"

definition bodyNoHeader :: bytes where
  "bodyNoHeader = ''--b'' @ crlf @ crlf @ ''hello'' @ crlf @ ''--b--'' @ crlf"

definition bodySkipped :: bytes where
  "bodySkipped =
     ''--b'' @ crlf @ ''Content-Type: text/plain; charset=UTF-8'' @ crlf @ crlf @
     ''one'' @ crlf @
     ''--b'' @ crlf @ ''X-Note: none'' @ crlf @ crlf @
     ''two'' @ crlf @
     ''--b'' @ crlf @ ''Content-Type: text/html; charset=UTF-8'' @ crlf @ crlf @
     ''three'' @ crlf @ ''--b--'' @ crlf"

definition bodyBrokenPart :: bytes where
  "bodyBrokenPart =
     ''--b'' @ crlf @ ''Content-Type: multipart/related; charset=ISO-8859-1'' @ crlf @ crlf @
     ''inner'' @ crlf @
     ''--b'' @ crlf @ ''Content-Type: text/plain; charset=UTF-8'' @ crlf @ crlf @
     ''after'' @ crlf @ ''--b--'' @ crlf"

text \<open>
  What \<^verbatim>\<open>multipart.Reader\<close> returns on these bodies: the header and the content of every
  part, then \<^verbatim>\<open>io.EOF\<close> after the closing delimiter. On a body without a delimiter
  line the first \<^verbatim>\<open>NextPart\<close> fails with \<^verbatim>\<open>multipart: NextPart: EOF\<close>.
\<close>

definition exampleParts :: "string \<Rightarrow> bytes \<Rightarrow> segment list \<times> error" where
  "exampleParts boundary body =
     (if boundary = ''b'' \<and> body = bodyTwoPlain then
        ([\<lparr>Header = [''Content-Type'' \<mapsto> [''text/plain; charset=UTF-8'']], Content = ''first''\<rparr>,
          \<lparr>Header = [''Content-Type'' \<mapsto> [''text/plain; charset=UTF-8'']], Content = ''last''\<rparr>],
         EOF)
      else if boundary = ''b'' \<and> body = bodyBadBase64 then
        ([\<lparr>Header = [''Content-Type'' \<mapsto> [''text/plain; charset=UTF-8''],
                      ''Content-Transfer-Encoding'' \<mapsto> [''base64'']],
            Content = ''aGVsbG8h!!!!''\<rparr>], EOF)
      else if boundary = ''b'' \<and> body = bodyNoHeader then
        ([\<lparr>Header = Map.empty, Content = ''hello''\<rparr>], EOF)
      else if boundary = ''b'' \<and> body = bodySkipped then
        ([\<lparr>Header = [''Content-Type'' \<mapsto> [''text/plain; charset=UTF-8'']], Content = ''one''\<rparr>,
          \<lparr>Header = [''X-Note'' \<mapsto> [''none'']], Content = ''two''\<rparr>,
          \<lparr>Header = [''Content-Type'' \<mapsto> [''text/html; charset=UTF-8'']], Content = ''three''\<rparr>],
         EOF)
      else if boundary = ''b'' \<and> body = bodyBrokenPart then
        ([\<lparr>Header = [''Content-Type'' \<mapsto> [''multipart/related; charset=ISO-8859-1'']],
            Content = ''inner''\<rparr>,
          \<lparr>Header = [''Content-Type'' \<mapsto> [''text/plain; charset=UTF-8'']], Content = ''after''\<rparr>],
         EOF)
      else ([], Err ''multipart: NextPart: EOF''))"

definition exampleReader :: mpreader where
  "exampleReader = readerOf exampleParts"

text \<open>
  A reader for bodies of any nesting depth: every byte of the body wraps one more
  multipart level around the rest, and the innermost part is a text part.
\<close>

definition nestParts :: "string \<Rightarrow> bytes \<Rightarrow> segment list \<times> error" where
  "nestParts boundary body =
     (case body of
        [] \<Rightarrow> ([], EOF)
      | c # rest \<Rightarrow>
          ([\<lparr>Header = [''Content-Type'' \<mapsto>
               [if rest = [] then ''text/plain'' else ''multipart/mixed; boundary=b'']],
             Content = rest\<rparr>], EOF))"

definition nestReader :: mpreader where
  "nestReader = readerOf nestParts"

text \<open>The results of \<^verbatim>\<open>mime.ParseMediaType\<close> on the header values of the examples.\<close>

definition exampleMediaTypes :: "(string \<times> string \<times> (string \<rightharpoonup> string)) list" where
  "exampleMediaTypes =
     [(''multipart/mixed; boundary=b'', ''multipart/mixed'', [''boundary'' \<mapsto> ''b'']),
      (''multipart/mixed'', ''multipart/mixed'', Map.empty),
      (''multipart/related; charset=ISO-8859-1'', ''multipart/related'',
         [''charset'' \<mapsto> ''ISO-8859-1'']),
      (''text/plain; charset=UTF-8'', ''text/plain'', [''charset'' \<mapsto> ''UTF-8'']),
      (''text/html; charset=UTF-8'', ''text/html'', [''charset'' \<mapsto> ''UTF-8'']),
      (''text/plain'', ''text/plain'', Map.empty)]"

text \<open>\<^verbatim>\<open>strings.ToLower\<close> on ASCII text.\<close>

definition lowerChar :: "char \<Rightarrow> char" where
  "lowerChar c =
     (case map_of (zip ''ABCDEFGHIJKLMNOPQRSTUVWXYZ'' ''abcdefghijklmnopqrstuvwxyz'') c of
        Some l \<Rightarrow> l
      | None \<Rightarrow> c)"

text \<open>\<^verbatim>\<open>strings.Fields\<close> and \<^verbatim>\<open>strings.TrimSpace\<close> on ASCII text.\<close>

definition asciiSpace :: string where
  "asciiSpace = [CHR '' '', CHR 0x09, CHR 0x0A, CHR 0x0B, CHR 0x0C, CHR 0x0D]"

fun fieldsFrom :: "string \<Rightarrow> string \<Rightarrow> string list" where
  "fieldsFrom cur [] = (if cur = [] then [] else [cur])"
| "fieldsFrom cur (c # cs) =
     (if c \<in> set asciiSpace
      then (if cur = [] then fieldsFrom [] cs else cur # fieldsFrom [] cs)
      else fieldsFrom (cur @ [c]) cs)"

text \<open>
  The token sequence of the address list
  \<^verbatim>\<open>"Doe, John" <john@x.com>, jane@y.com\<close> by the lexer rules of section 4.1 of the
  specification: the quoted string is one token, the specials are tokens of their own.
\<close>

definition exampleAddressList :: bytes where
  "exampleAddressList =
     [CHR 0x22] @ ''Doe, John'' @ [CHR 0x22] @ '' <john@x.com>, jane@y.com''"

definition exampleRun1 :: "token list" where
  "exampleRun1 =
     [[CHR 0x22] @ ''Doe, John'' @ [CHR 0x22], ''<'', ''john'', ''@'', ''x.com'', ''>'']"

definition exampleRun2 :: "token list" where
  "exampleRun2 = [''jane'', ''@'', ''y.com'']"

text \<open>A raw message with the single header field \<^verbatim>\<open>Content-Type\<close>.\<close>

definition rawOf :: "string \<Rightarrow> bytes \<Rightarrow> RawMessage" where
  "rawOf ct body = \<lparr>RawHeaders = [\<lparr>Key = ''Content-Type'', Value = ct\<rparr>], Body = body\<rparr>"

text \<open>A whole message, as \<^verbatim>\<open>Parse\<close> receives it.\<close>

definition exampleData :: bytes where
  "exampleData = ''Content-Type: multipart/mixed'' @ crlf @ crlf @ ''hello''"

text \<open>
  The library functions at the inputs of the examples. \<^verbatim>\<open>mail.ReadMessage\<close> reads an
  empty header from a text that starts with a line break. \<^verbatim>\<open>DecodeString\<close> stops at
  the first illegal character and returns the bytes decoded before it. The raw splitter
  gives the header fields and the body of the one listed message. Outside the inputs of
  the examples the fields have a default value.
\<close>

definition exampleEnv :: env where
  "exampleEnv =
     \<lparr>ParseMediaType = (\<lambda>ct. case map_of exampleMediaTypes ct of
          Some res \<Rightarrow> Inr res
        | None \<Rightarrow> Inl (Err ''mime: no media type'')),
      ReadMessage = (\<lambda>text. Inr Map.empty),
      ToLower = map lowerChar,
      TrimSpace = (\<lambda>s. Trim s asciiSpace),
      Fields = fieldsFrom [],
      DecodeString = (\<lambda>s.
          if s = ''aGVsbG8h!!!!'' then (''hello!'', Some (Err ''illegal base64 data at input byte 8''))
          else if s = ''aGVsbG8h'' then (''hello!'', None)
          else ([], Some (Err ''illegal base64 data at input byte 0''))),
      QPReadAll = (\<lambda>b. b),
      ParseDate = (\<lambda>s. 0),
      ParseAddress = (\<lambda>b. (None, Some (Err ''address: no mailbox''))),
      Decode = (\<lambda>b. (b, None)),
      UTF8 = (\<lambda>cs data. if cs = ''UTF-8'' then Inr data else Inl (Err ''charset: unknown'')),
      decodeRFC2047 = (\<lambda>b. Inr b),
      tokenize = (\<lambda>b. if b = exampleAddressList then Inr (exampleRun1 @ '','' # exampleRun2)
          else Inl (Err ''lexer: input not listed'')),
      parseAddress = (\<lambda>ts.
          if ts = exampleRun1 then Inr (Mailbox (MailboxOf (Some ''Doe, John'') ''john'' ''x.com''))
          else if ts = exampleRun2 then Inr (Mailbox (MailboxOf None ''jane'' ''y.com''))
          else Inl (Err ''address: run not listed'')),
      ParseRaw = (\<lambda>data.
          if data = exampleData
          then Inr (rawOf ''multipart/mixed'' ''hello'')
          else Inl (Err ''raw: message not listed''))\<rparr>"

section \<open>Properties of \<^verbatim>\<open>parseBody\<close>\<close>

text \<open>The defining equations are applied by hand: they do not terminate as rewrite rules.\<close>

declare parseBody.simps [simp del] nesting.simps [simp del]

lemma parseBody_leaf:
  assumes "ParseMediaType E ct = Inr (mt, ps)" "ps ''boundary'' = None"
    "\<not> prefix ''multipart'' mt" "ReadMessage E ([CHR 0x0D, CHR 0x0A] @ body) = Inr found"
  shows "parseBody E r ct body ph =
    ([\<lparr>Type = mt, Charset = param ps ''charset'', Data = body,
       Headers = mergeHeaders found ph\<rparr>], None)"
  using assms by (subst parseBody.simps) simp

lemma parseBody_multipart:
  assumes "ParseMediaType E ct = Inr (mt, ps)" "ps ''boundary'' = Some boundary"
  shows "parseBody E r ct body ph =
    (concat (map (segmentParts E r) (NextParts r boundary body)),
     afterLoop (NextPartErr r boundary body))"
  using assms by (subst parseBody.simps) (simp add: segmentParts_def [abs_def])

lemma foldr_max_le: "(\<forall>x \<in> set xs. x \<le> n) \<Longrightarrow> foldr max xs (0::nat) \<le> n"
  by (induction xs) auto

lemma nesting_le: "nesting E r ct body \<le> Suc (length body)"
proof (induction E r ct body rule: nesting.induct)
  case (1 E r ct body)
  show ?case
  proof (cases "ParseMediaType E ct")
    case (Inl e)
    then show ?thesis by (subst nesting.simps) simp
  next
    case (Inr b)
    obtain mt ps where b: "b = (mt, ps)" by (cases b)
    show ?thesis
    proof (cases "ps ''boundary''")
      case None
      with Inr b show ?thesis by (subst nesting.simps) simp
    next
      case (Some boundary)
      define f where "f = (\<lambda>p::segment. if length (Values (Header p) ''Content-Type'') = 0 then 0
           else nesting E r (hd (Values (Header p) ''Content-Type'')) (Content p))"
      have seg: "f p \<le> length body" if p: "p \<in> set (NextParts r boundary body)" for p
      proof (cases "length (Values (Header p) ''Content-Type'') = 0")
        case True
        then show ?thesis by (simp add: f_def)
      next
        case False
        have "length (Content p) < length body"
          using p Rep_mpreader [of r] by (auto simp: NextParts_def)
        moreover have "f p \<le> Suc (length (Content p))"
          using "1.IH" [OF Inr b [symmetric] Some p False] False by (simp add: f_def)
        ultimately show ?thesis by simp
      qed
      have "foldr max (map f (NextParts r boundary body)) 0 \<le> length body"
        by (rule foldr_max_le) (simp add: seg)
      moreover have "nesting E r ct body = Suc (foldr max (map f (NextParts r boundary body)) 0)"
        using Inr b Some by (subst nesting.simps) (simp add: f_def)
      ultimately show ?thesis by simp
    qed
  qed
qed


lemma mergeHeaders_empty: "mergeHeaders Map.empty ph = ph"
  by (rule ext) (simp add: mergeHeaders_def split: option.split)

lemma parseBody_no_media_type:
  "ParseMediaType E ct = Inl err \<Longrightarrow> parseBody E r ct body ph = ([], Some err)"
  by (subst parseBody.simps) simp

lemma parseBody_without_boundary:
  assumes "ParseMediaType E ct = Inr (mt, ps)" "ps ''boundary'' = None" "prefix ''multipart'' mt"
  shows "parseBody E r ct body ph = ([], Some (Err ''multipart specified without boundary''))"
  using assms by (subst parseBody.simps) simp

lemma parseBody_leaf_unreadable:
  assumes "ParseMediaType E ct = Inr (mt, ps)" "ps ''boundary'' = None"
    "\<not> prefix ''multipart'' mt" "ReadMessage E ([CHR 0x0D, CHR 0x0A] @ body) = Inl err"
  shows "parseBody E r ct body ph = ([], Some err)"
  using assms by (subst parseBody.simps) simp

lemma parseBody_error_source:
  assumes "snd (parseBody E r ct body ph) = Some e"
  shows "ParseMediaType E ct = Inl e \<or> e = Err ''multipart specified without boundary'' \<or>
     ReadMessage E (crlf @ body) = Inl e \<or> (\<exists>boundary. e = NextPartErr r boundary body)"
proof (cases "ParseMediaType E ct")
  case (Inl err)
  with assms show ?thesis by (simp add: parseBody_no_media_type)
next
  case (Inr b)
  obtain mt ps where b: "b = (mt, ps)" by (cases b)
  show ?thesis
  proof (cases "ps ''boundary''")
    case None
    show ?thesis
    proof (cases "prefix ''multipart'' mt")
      case True
      with assms Inr b None show ?thesis by (simp add: parseBody_without_boundary)
    next
      case False
      show ?thesis
      proof (cases "ReadMessage E (crlf @ body)")
        case (Inl err)
        with assms Inr b None False show ?thesis
          using parseBody_leaf_unreadable [of E ct mt ps body err r ph] by simp
      next
        case (Inr found)
        with assms \<open>ParseMediaType E ct = Inr b\<close> b None False show ?thesis
          using parseBody_leaf [of E ct mt ps body found r ph] by simp
      qed
    qed
  next
    case (Some boundary)
    with assms Inr b have "afterLoop (NextPartErr r boundary body) = Some e"
      by (simp add: parseBody_multipart)
    then have "e = NextPartErr r boundary body"
      by (simp add: afterLoop_def split: if_splits)
    then show ?thesis by blast
  qed
qed

lemma NextParts_readerOf:
  "NextParts (readerOf f) boundary body =
     filter (\<lambda>p. length (Content p) < length body) (fst (f boundary body))"
  by (simp add: NextParts_def readerOf.rep_eq)

lemma NextPartErr_readerOf: "NextPartErr (readerOf f) boundary body = snd (f boundary body)"
  by (simp add: NextPartErr_def readerOf.rep_eq)

lemma exampleMediaType_mixed:
  "ParseMediaType exampleEnv ''multipart/mixed; boundary=b'' =
     Inr (''multipart/mixed'', [''boundary'' \<mapsto> ''b''])"
  by (simp add: exampleEnv_def exampleMediaTypes_def)

lemma exampleMediaType_plain:
  "ParseMediaType exampleEnv ''text/plain; charset=UTF-8'' =
     Inr (''text/plain'', [''charset'' \<mapsto> ''UTF-8''])"
  by (simp add: exampleEnv_def exampleMediaTypes_def)

lemma exampleMediaType_html:
  "ParseMediaType exampleEnv ''text/html; charset=UTF-8'' =
     Inr (''text/html'', [''charset'' \<mapsto> ''UTF-8''])"
  by (simp add: exampleEnv_def exampleMediaTypes_def)

lemma exampleMediaType_bare:
  "ParseMediaType exampleEnv ''multipart/mixed'' = Inr (''multipart/mixed'', Map.empty)"
  by (simp add: exampleEnv_def exampleMediaTypes_def)

lemma exampleMediaType_related:
  "ParseMediaType exampleEnv ''multipart/related; charset=ISO-8859-1'' =
     Inr (''multipart/related'', [''charset'' \<mapsto> ''ISO-8859-1''])"
  by (simp add: exampleEnv_def exampleMediaTypes_def)

lemma exampleMediaType_text:
  "ParseMediaType exampleEnv ''text/plain'' = Inr (''text/plain'', Map.empty)"
  by (simp add: exampleEnv_def exampleMediaTypes_def)

lemma example_ReadMessage: "ReadMessage exampleEnv text = Inr Map.empty"
  by (simp add: exampleEnv_def)

lemma example_plain_leaf:
  "parseBody exampleEnv r ''text/plain; charset=UTF-8'' body ph =
     ([\<lparr>Type = ''text/plain'', Charset = ''UTF-8'', Data = body, Headers = ph\<rparr>], None)"
  by (subst parseBody.simps)
    (simp add: exampleMediaType_plain example_ReadMessage param_def mergeHeaders_empty)

lemma example_html_leaf:
  "parseBody exampleEnv r ''text/html; charset=UTF-8'' body ph =
     ([\<lparr>Type = ''text/html'', Charset = ''UTF-8'', Data = body, Headers = ph\<rparr>], None)"
  by (subst parseBody.simps)
    (simp add: exampleMediaType_html example_ReadMessage param_def mergeHeaders_empty)

lemma example_text_leaf:
  "parseBody exampleEnv r ''text/plain'' body ph =
     ([\<lparr>Type = ''text/plain'', Charset = [], Data = body, Headers = ph\<rparr>], None)"
  by (subst parseBody.simps)
    (simp add: exampleMediaType_text example_ReadMessage param_def mergeHeaders_empty)

lemma example_related_fails:
  "parseBody exampleEnv r ''multipart/related; charset=ISO-8859-1'' body ph =
     ([], Some (Err ''multipart specified without boundary''))"
  by (subst parseBody.simps) (simp add: exampleMediaType_related)

lemma exampleParts_skipped:
  "NextParts exampleReader ''b'' bodySkipped =
     [\<lparr>Header = [''Content-Type'' \<mapsto> [''text/plain; charset=UTF-8'']], Content = ''one''\<rparr>,
      \<lparr>Header = [''X-Note'' \<mapsto> [''none'']], Content = ''two''\<rparr>,
      \<lparr>Header = [''Content-Type'' \<mapsto> [''text/html; charset=UTF-8'']], Content = ''three''\<rparr>]"
  by (simp add: exampleReader_def NextParts_readerOf exampleParts_def bodySkipped_def
      bodyTwoPlain_def bodyBadBase64_def bodyNoHeader_def)

lemma exampleErr_skipped: "NextPartErr exampleReader ''b'' bodySkipped = EOF"
  by (simp add: exampleReader_def NextPartErr_readerOf exampleParts_def bodySkipped_def
      bodyTwoPlain_def bodyBadBase64_def bodyNoHeader_def)


lemma segmentParts_no_content_type:
  "Values (Header p) ''Content-Type'' = [] \<Longrightarrow> segmentParts E r p = []"
  by (simp add: segmentParts_def)

lemma segmentParts_failed:
  assumes "Values (Header p) ''Content-Type'' = c0 # cs"
    and "snd (parseBody E r c0 (Content p) (Header p)) = Some e"
  shows "segmentParts E r p = [fallbackPart p]"
  using assms by (cases "parseBody E r c0 (Content p) (Header p)") (simp add: segmentParts_def)

text \<open>
  Claim C7. In a multipart body, a segment that declares no \<^verbatim>\<open>Content-Type\<close> header
  contributes no part; the result consists of the parts of the segments before it
  followed by the parts of the segments after it, and the returned error is the one that
  the end of the reader leaves, whatever the skipped segment holds.
\<close>

theorem parseBody_skips_segment_without_content_type:
  assumes "ParseMediaType E ct = Inr (mt, ps)"
    and "ps ''boundary'' = Some boundary"
    and "NextParts r boundary body = before @ [p] @ after"
    and "Values (Header p) ''Content-Type'' = []"
  shows "segmentParts E r p = [] \<and>
     parseBody E r ct body ph =
       (concat (map (segmentParts E r) before) @ concat (map (segmentParts E r) after),
        afterLoop (NextPartErr r boundary body))"
  using assms by (simp add: parseBody_multipart segmentParts_no_content_type)

text \<open>
  The body \<^term>\<open>bodySkipped\<close> has a segment with only an \<^verbatim>\<open>X-Note\<close> header between
  a plain and an HTML segment; two parts and no error are returned.
\<close>

theorem parseBody_skips_segment_witness:
  "parseBody exampleEnv exampleReader ''multipart/mixed; boundary=b'' bodySkipped Map.empty =
     ([\<lparr>Type = ''text/plain'', Charset = ''UTF-8'', Data = ''one'',
        Headers = [''Content-Type'' \<mapsto> [''text/plain; charset=UTF-8'']]\<rparr>,
       \<lparr>Type = ''text/html'', Charset = ''UTF-8'', Data = ''three'',
        Headers = [''Content-Type'' \<mapsto> [''text/html; charset=UTF-8'']]\<rparr>], None)"
proof -
  have parts: "NextParts exampleReader ''b'' bodySkipped =
      [\<lparr>Header = [''Content-Type'' \<mapsto> [''text/plain; charset=UTF-8'']], Content = ''one''\<rparr>] @
      [\<lparr>Header = [''X-Note'' \<mapsto> [''none'']], Content = ''two''\<rparr>] @
      [\<lparr>Header = [''Content-Type'' \<mapsto> [''text/html; charset=UTF-8'']], Content = ''three''\<rparr>]"
    by (simp add: exampleParts_skipped)
  have none: "Values (Header \<lparr>Header = [''X-Note'' \<mapsto> [''none'']], Content = ''two''\<rparr>)
      ''Content-Type'' = []"
    by (simp add: Values_def)
  have "[''boundary'' \<mapsto> ''b''] ''boundary'' = Some ''b''" by simp
  from parseBody_skips_segment_without_content_type
    [OF exampleMediaType_mixed this parts none, of Map.empty]
  show ?thesis
    by (simp add: segmentParts_def Values_def example_plain_leaf example_html_leaf
        exampleErr_skipped afterLoop_def)
qed


text \<open>
  Claim C10. When the recursive call for a segment returns an error, that error is
  dropped: the segment is emitted as one part with its raw \<^verbatim>\<open>Content-Type\<close> value as
  type, its raw content as data and its own headers; the charset is the text after the
  first case-insensitive \<^verbatim>\<open>charset=\<close> of that value, or \<^verbatim>\<open>UTF-8\<close> when there is no
  such match. The segments before and after contribute as usual, and the returned error
  is the one the end of the reader leaves.
\<close>

theorem parseBody_failed_segment_becomes_leaf:
  assumes "ParseMediaType E ct = Inr (mt, ps)"
    and "ps ''boundary'' = Some boundary"
    and "NextParts r boundary body = before @ [p] @ after"
    and "Values (Header p) ''Content-Type'' = c0 # cs"
    and "snd (parseBody E r c0 (Content p) (Header p)) = Some e"
  shows "parseBody E r ct body ph =
     (concat (map (segmentParts E r) before) @
      [\<lparr>Type = c0, Charset = (case findCharset c0 of Some c \<Rightarrow> c | None \<Rightarrow> ''UTF-8''),
        Data = Content p, Headers = Header p\<rparr>] @
      concat (map (segmentParts E r) after),
      afterLoop (NextPartErr r boundary body))"
  using assms segmentParts_failed [OF assms(4,5)]
  by (simp add: parseBody_multipart fallbackPart_def)

lemma exampleParts_broken:
  "NextParts exampleReader ''b'' bodyBrokenPart =
     [\<lparr>Header = [''Content-Type'' \<mapsto> [''multipart/related; charset=ISO-8859-1'']],
        Content = ''inner''\<rparr>,
      \<lparr>Header = [''Content-Type'' \<mapsto> [''text/plain; charset=UTF-8'']], Content = ''after''\<rparr>]"
  by (simp add: exampleReader_def NextParts_readerOf exampleParts_def bodySkipped_def
      bodyTwoPlain_def bodyBadBase64_def bodyNoHeader_def bodyBrokenPart_def)

lemma exampleErr_broken: "NextPartErr exampleReader ''b'' bodyBrokenPart = EOF"
  by (simp add: exampleReader_def NextPartErr_readerOf exampleParts_def bodySkipped_def
      bodyTwoPlain_def bodyBadBase64_def bodyNoHeader_def bodyBrokenPart_def)

text \<open>
  In \<^term>\<open>bodyBrokenPart\<close> the first segment is of a multipart type without a boundary,
  so its decomposition fails; it is kept as a raw part and the next segment is decomposed.
\<close>

theorem parseBody_failed_segment_witness:
  "parseBody exampleEnv exampleReader ''multipart/mixed; boundary=b'' bodyBrokenPart Map.empty =
     ([\<lparr>Type = ''multipart/related; charset=ISO-8859-1'', Charset = ''ISO-8859-1'',
        Data = ''inner'',
        Headers = [''Content-Type'' \<mapsto> [''multipart/related; charset=ISO-8859-1'']]\<rparr>,
       \<lparr>Type = ''text/plain'', Charset = ''UTF-8'', Data = ''after'',
        Headers = [''Content-Type'' \<mapsto> [''text/plain; charset=UTF-8'']]\<rparr>], None)"
proof -
  let ?p = "\<lparr>Header = [''Content-Type'' \<mapsto> [''multipart/related; charset=ISO-8859-1'']],
      Content = ''inner''\<rparr>"
  have parts: "NextParts exampleReader ''b'' bodyBrokenPart =
      [] @ [?p] @
      [\<lparr>Header = [''Content-Type'' \<mapsto> [''text/plain; charset=UTF-8'']], Content = ''after''\<rparr>]"
    by (simp add: exampleParts_broken)
  have ct: "Values (Header ?p) ''Content-Type'' = ''multipart/related; charset=ISO-8859-1'' # []"
    by (simp add: Values_def)
  have failed: "snd (parseBody exampleEnv exampleReader ''multipart/related; charset=ISO-8859-1''
      (Content ?p) (Header ?p)) = Some (Err ''multipart specified without boundary'')"
    by (simp add: example_related_fails)
  have "[''boundary'' \<mapsto> ''b''] ''boundary'' = Some ''b''" by simp
  from parseBody_failed_segment_becomes_leaf
    [OF exampleMediaType_mixed this parts ct failed, of Map.empty]
  show ?thesis
    by (simp add: segmentParts_def Values_def example_plain_leaf exampleErr_broken afterLoop_def)
qed



lemma nestParts_Cons:
  "NextParts nestReader boundary (c # rest) =
     [\<lparr>Header = [''Content-Type'' \<mapsto>
          [if rest = [] then ''text/plain'' else ''multipart/mixed; boundary=b'']],
        Content = rest\<rparr>]"
  by (simp add: nestReader_def NextParts_readerOf nestParts_def)

lemma nestErr: "NextPartErr nestReader boundary body = EOF"
  by (simp add: nestReader_def NextPartErr_readerOf nestParts_def split: list.split)

lemma nest_parseBody:
  "parseBody exampleEnv nestReader ''multipart/mixed; boundary=b'' (replicate (Suc n) c) ph =
     ([\<lparr>Type = ''text/plain'', Charset = [], Data = [],
        Headers = [''Content-Type'' \<mapsto> [''text/plain'']]\<rparr>], None)"
proof (induction n arbitrary: ph)
  case 0
  have b: "[''boundary'' \<mapsto> ''b''] ''boundary'' = Some ''b''" by simp
  show ?case
    unfolding replicate.simps
    by (subst parseBody_multipart [OF exampleMediaType_mixed b])
      (simp add: nestParts_Cons nestErr afterLoop_def segmentParts_def Values_def
        example_text_leaf)
next
  case (Suc n)
  have b: "[''boundary'' \<mapsto> ''b''] ''boundary'' = Some ''b''" by simp
  have step: "parseBody exampleEnv nestReader ''multipart/mixed; boundary=b''
      (c # replicate (Suc n) c) ph =
     ([\<lparr>Type = ''text/plain'', Charset = [], Data = [],
        Headers = [''Content-Type'' \<mapsto> [''text/plain'']]\<rparr>], None)"
    by (subst parseBody_multipart [OF exampleMediaType_mixed b])
      (auto simp add: nestParts_Cons nestErr afterLoop_def segmentParts_def Values_def
        Suc.IH fun_eq_iff simp del: replicate_Suc)
  then show ?case by (simp only: replicate_Suc [of "Suc n"])
qed

lemma nest_nesting:
  "nesting exampleEnv nestReader ''multipart/mixed; boundary=b'' (replicate (Suc n) c) = n + 2"
proof (induction n)
  case 0
  have leaf: "nesting exampleEnv nestReader ''text/plain'' [] = 1"
    by (subst nesting.simps) (simp add: exampleMediaType_text)
  show ?case
    by (subst nesting.simps)
      (simp add: exampleMediaType_mixed nestParts_Cons Values_def leaf)
next
  case (Suc n)
  have "nesting exampleEnv nestReader ''multipart/mixed; boundary=b''
      (c # replicate (Suc n) c) = Suc (n + 2)"
    by (subst nesting.simps)
      (simp add: exampleMediaType_mixed nestParts_Cons Values_def Suc.IH [simplified])
  then show ?case by simp
qed

text \<open>
  Claim C3, as amended. \<^verbatim>\<open>parseBody\<close> has no fixed depth cap and no recursion-limit
  error. Its recursion depth is bounded by the length of the body, since every nested
  segment is strictly shorter than the body around it; and an error that it returns
  comes from the outermost call alone: from the media type, from the missing boundary,
  from reading the leaf, or from the end of the reader.
\<close>

theorem parseBody_recursion_bounded_by_body:
  "nesting E r ct body \<le> Suc (length body) \<and>
   (\<forall>e. snd (parseBody E r ct body ph) = Some e \<longrightarrow>
      ParseMediaType E ct = Inl e \<or> e = Err ''multipart specified without boundary'' \<or>
      ReadMessage E (crlf @ body) = Inl e \<or> (\<exists>boundary. e = NextPartErr r boundary body))"
  using nesting_le [of E r ct body] parseBody_error_source [of E r ct body ph] by blast

text \<open>A call that does return an error: a multipart type without its boundary.\<close>

theorem parseBody_recursion_bounded_witness:
  "snd (parseBody exampleEnv exampleReader ''multipart/mixed'' ''hello'' Map.empty) =
     Some (Err ''multipart specified without boundary'') \<and>
   nesting exampleEnv exampleReader ''multipart/mixed'' ''hello'' \<le> 6"
  using parseBody_recursion_bounded_by_body
    [of exampleEnv exampleReader "''multipart/mixed''" "''hello''" Map.empty]
    parseBody_without_boundary [OF exampleMediaType_bare, of exampleReader "''hello''" Map.empty]
  by simp

text \<open>
  Claim C3 as stated fails: no depth cap makes \<^verbatim>\<open>parseBody\<close> fail. Under
  \<^term>\<open>nestReader\<close> a body of \<open>cap + 1\<close> bytes is nested deeper than \<open>cap\<close> and is
  decomposed without an error.
\<close>

theorem parseBody_no_depth_cap_counterexample:
  "\<not> (\<exists>cap. \<forall>ct body. cap < nesting exampleEnv nestReader ct body \<longrightarrow>
        snd (parseBody exampleEnv nestReader ct body Map.empty) \<noteq> None)"
proof
  assume "\<exists>cap. \<forall>ct body. cap < nesting exampleEnv nestReader ct body \<longrightarrow>
        snd (parseBody exampleEnv nestReader ct body Map.empty) \<noteq> None"
  then obtain cap where cap: "\<And>ct body. cap < nesting exampleEnv nestReader ct body \<Longrightarrow>
        snd (parseBody exampleEnv nestReader ct body Map.empty) \<noteq> None"
    by blast
  have "cap < nesting exampleEnv nestReader ''multipart/mixed; boundary=b''
      (replicate (Suc cap) CHR ''x'')"
    by (simp add: nest_nesting del: replicate_Suc)
  from cap [OF this] show False
    by (simp add: nest_parseBody del: replicate_Suc)
qed

section \<open>Properties of \<^verbatim>\<open>handleMessage\<close>\<close>

lemma handleBody_error:
  assumes "ContentType msg \<noteq> []"
    and "snd (parseBody E rd (ContentType msg) (Body r) Map.empty) = Some e"
  shows "handleBody E rd r msg errors =
     Inr (msg\<lparr>Text := Body r\<rparr>, errors @ [Err (''body parser: '' @ Error e)])"
  using assms
  by (cases "parseBody E rd (ContentType msg) (Body r) Map.empty") (simp add: handleBody_def)

lemma lower_content_type: "map lowerChar ''Content-Type'' = ''content-type''"
  unfolding lowerChar_def by simp

lemma rawOf_Body: "Body (rawOf ct body) = body"
  by (simp add: rawOf_def)

lemma example_headers:
  "handleHeaders exampleEnv (rawOf ct body) =
     (zeroMessage\<lparr>ParsedHeaders := [''Content-Type'' \<mapsto> [ct]], ContentType := ct\<rparr>, [])"
proof -
  have "ToLower exampleEnv = map lowerChar"
    by (simp add: exampleEnv_def)
  then have lower: "ToLower exampleEnv ''Content-Type'' = ''content-type''"
    by (simp only: lower_content_type)
  show ?thesis
    by (simp add: handleHeaders_def rawOf_def handleHeader_def headerSwitch_def lower
        Values_def zeroMessage_def)
qed

text \<open>
  Claim C5. When the message has a content type and the decomposition of its body
  returns an error, \<^verbatim>\<open>handleMessage\<close> does not abort: it returns the message built
  from the headers with the raw body as its plain-text field, and the error list of the
  headers with the decomposition failure appended.
\<close>

theorem handleMessage_body_error_is_recorded:
  assumes "handleHeaders E r = (msg, errors)"
    and "ContentType msg \<noteq> []"
    and "snd (parseBody E rd (ContentType msg) (Body r) Map.empty) = Some e"
  shows "handleMessage E rd r =
     Inr (msg\<lparr>Text := Body r\<rparr>, errors @ [Err (''body parser: '' @ Error e)])"
  using assms by (simp add: handleMessage_def handleBody_error)

text \<open>A content type without a media type: the body is returned as text.\<close>

theorem handleMessage_body_error_witness:
  "handleMessage exampleEnv exampleReader (rawOf '';'' ''raw body'') =
     Inr (zeroMessage\<lparr>ParsedHeaders := [''Content-Type'' \<mapsto> ['';'']],
            ContentType := '';'', Text := ''raw body''\<rparr>,
          [Err ''body parser: mime: no media type''])"
proof -
  have mt: "ParseMediaType exampleEnv '';'' = Inl (Err ''mime: no media type'')"
    by (simp add: exampleEnv_def exampleMediaTypes_def)
  have failed: "snd (parseBody exampleEnv exampleReader
      (ContentType (zeroMessage\<lparr>ParsedHeaders := [''Content-Type'' \<mapsto> ['';'']],
         ContentType := '';''\<rparr>)) (Body (rawOf '';'' ''raw body'')) Map.empty) =
      Some (Err ''mime: no media type'')"
    by (simp add: parseBody_no_media_type [OF mt] rawOf_Body)
  from handleMessage_body_error_is_recorded [OF example_headers _ failed]
  show ?thesis by (simp add: rawOf_Body)
qed

text \<open>
  Claim C4, as amended. A top-level media type that starts with \<^verbatim>\<open>multipart\<close> and has
  no boundary parameter is not fatal: \<^verbatim>\<open>handleMessage\<close> returns the message built from
  the headers, with the raw body as its plain-text field, and records the failure as the
  last entry of the error list.
\<close>

theorem handleMessage_multipart_without_boundary:
  assumes "handleHeaders E r = (msg, errors)"
    and "ContentType msg \<noteq> []"
    and "ParseMediaType E (ContentType msg) = Inr (mt, ps)"
    and "ps ''boundary'' = None"
    and "prefix ''multipart'' mt"
  shows "handleMessage E rd r =
     Inr (msg\<lparr>Text := Body r\<rparr>,
          errors @ [Err ''body parser: multipart specified without boundary''])"
  using assms(1,2) parseBody_without_boundary [OF assms(3,4,5), of rd "Body r" Map.empty]
  by (simp add: handleMessage_def handleBody_error)

text \<open>The amended claim at a message of type \<^verbatim>\<open>multipart/related\<close> without boundary.\<close>

theorem handleMessage_multipart_without_boundary_witness:
  "handleMessage exampleEnv exampleReader
     (rawOf ''multipart/related; charset=ISO-8859-1'' ''hello'') =
     Inr (zeroMessage\<lparr>ParsedHeaders :=
              [''Content-Type'' \<mapsto> [''multipart/related; charset=ISO-8859-1'']],
            ContentType := ''multipart/related; charset=ISO-8859-1'', Text := ''hello''\<rparr>,
          [Err ''body parser: multipart specified without boundary''])"
proof -
  have mt: "ParseMediaType exampleEnv
      (ContentType (zeroMessage\<lparr>ParsedHeaders :=
           [''Content-Type'' \<mapsto> [''multipart/related; charset=ISO-8859-1'']],
         ContentType := ''multipart/related; charset=ISO-8859-1''\<rparr>)) =
      Inr (''multipart/related'', [''charset'' \<mapsto> ''ISO-8859-1''])"
    by (simp add: exampleMediaType_related)
  from handleMessage_multipart_without_boundary [OF example_headers _ mt]
  show ?thesis by (simp add: rawOf_Body)
qed

text \<open>
  Claim C4 as stated fails: for the content type \<^verbatim>\<open>multipart/mixed\<close> without a boundary
  the parse does not abort; \<^verbatim>\<open>handleMessage\<close>, and \<^verbatim>\<open>Parse\<close> with it, return a message
  whose text is the body, and the failure is an entry of the error list.
\<close>

theorem handleMessage_multipart_without_boundary_counterexample:
  "map_sum id (\<lambda>(msg, errors). (Text msg, errors))
     (handleMessage exampleEnv exampleReader (rawOf ''multipart/mixed'' ''hello'')) =
     Inr (''hello'', [Err ''body parser: multipart specified without boundary'']) \<and>
   map_sum id (\<lambda>(msg, errors). (Text msg, MHeaders msg, MBody msg, errors))
     (Parse exampleEnv exampleReader exampleData) =
     Inr (''hello'', ''Content-Type: multipart/mixed'', ''hello'',
          [Err ''body parser: multipart specified without boundary''])"
proof -
  have "snd (parseBody exampleEnv exampleReader ''multipart/mixed'' ''hello'' Map.empty) =
      Some (Err ''multipart specified without boundary'')"
    by (simp add: parseBody_without_boundary [OF exampleMediaType_bare])
  then have hm: "handleMessage exampleEnv exampleReader (rawOf ''multipart/mixed'' ''hello'') =
      Inr (zeroMessage\<lparr>ParsedHeaders := [''Content-Type'' \<mapsto> [''multipart/mixed'']],
             ContentType := ''multipart/mixed'', Text := ''hello''\<rparr>,
           [Err ''body parser: multipart specified without boundary''])"
    by (simp add: handleMessage_def example_headers handleBody_error rawOf_Body)
  have raw: "ParseRaw exampleEnv exampleData = Inr (rawOf ''multipart/mixed'' ''hello'')"
    by (simp add: exampleEnv_def)
  have "removeFirst ''hello'' exampleData = ''Content-Type: multipart/mixed'' @ crlf @ crlf"
    by (simp add: exampleData_def)
  then have hdr: "extractHeaders ''hello'' exampleData = ''Content-Type: multipart/mixed''"
    by (simp add: extractHeaders_def TrimSuffix_def suffix_to_prefix)
  show ?thesis
    by (simp add: Parse_def raw hm rawOf_Body hdr)
qed


lemma exampleParts_twoPlain:
  "NextParts exampleReader ''b'' bodyTwoPlain =
     [\<lparr>Header = [''Content-Type'' \<mapsto> [''text/plain; charset=UTF-8'']], Content = ''first''\<rparr>,
      \<lparr>Header = [''Content-Type'' \<mapsto> [''text/plain; charset=UTF-8'']], Content = ''last''\<rparr>]"
  by (simp add: exampleReader_def NextParts_readerOf exampleParts_def bodyTwoPlain_def)

lemma exampleErr_twoPlain: "NextPartErr exampleReader ''b'' bodyTwoPlain = EOF"
  by (simp add: exampleReader_def NextPartErr_readerOf exampleParts_def)

lemma exampleParts_badBase64:
  "NextParts exampleReader ''b'' bodyBadBase64 =
     [\<lparr>Header = [''Content-Type'' \<mapsto> [''text/plain; charset=UTF-8''],
                  ''Content-Transfer-Encoding'' \<mapsto> [''base64'']],
        Content = ''aGVsbG8h!!!!''\<rparr>]"
  by (simp add: exampleReader_def NextParts_readerOf exampleParts_def bodyTwoPlain_def
      bodyBadBase64_def)

lemma exampleErr_badBase64: "NextPartErr exampleReader ''b'' bodyBadBase64 = EOF"
  by (simp add: exampleReader_def NextPartErr_readerOf exampleParts_def)

lemma exampleParts_noHeader:
  "NextParts exampleReader ''b'' bodyNoHeader = [\<lparr>Header = Map.empty, Content = ''hello''\<rparr>]"
  by (simp add: exampleReader_def NextParts_readerOf exampleParts_def bodyTwoPlain_def
      bodyBadBase64_def bodyNoHeader_def)

lemma exampleErr_noHeader: "NextPartErr exampleReader ''b'' bodyNoHeader = EOF"
  by (simp add: exampleReader_def NextPartErr_readerOf exampleParts_def)

lemma example_boundary: "[''boundary'' \<mapsto> ''b''] ''boundary'' = Some ''b''"
  by simp

lemma parseBody_twoPlain:
  "parseBody exampleEnv exampleReader ''multipart/mixed; boundary=b'' bodyTwoPlain Map.empty =
     ([\<lparr>Type = ''text/plain'', Charset = ''UTF-8'', Data = ''first'',
        Headers = [''Content-Type'' \<mapsto> [''text/plain; charset=UTF-8'']]\<rparr>,
       \<lparr>Type = ''text/plain'', Charset = ''UTF-8'', Data = ''last'',
        Headers = [''Content-Type'' \<mapsto> [''text/plain; charset=UTF-8'']]\<rparr>], None)"
  by (subst parseBody_multipart [OF exampleMediaType_mixed example_boundary])
    (simp add: exampleParts_twoPlain exampleErr_twoPlain segmentParts_def Values_def
      example_plain_leaf afterLoop_def)

lemma parseBody_badBase64:
  "parseBody exampleEnv exampleReader ''multipart/mixed; boundary=b'' bodyBadBase64 Map.empty =
     ([\<lparr>Type = ''text/plain'', Charset = ''UTF-8'', Data = ''aGVsbG8h!!!!'',
        Headers = [''Content-Type'' \<mapsto> [''text/plain; charset=UTF-8''],
                   ''Content-Transfer-Encoding'' \<mapsto> [''base64'']]\<rparr>], None)"
  by (subst parseBody_multipart [OF exampleMediaType_mixed example_boundary])
    (simp add: exampleParts_badBase64 exampleErr_badBase64 segmentParts_def Values_def
      example_plain_leaf afterLoop_def)

lemma parseBody_noHeader:
  "parseBody exampleEnv exampleReader ''multipart/mixed; boundary=b'' bodyNoHeader Map.empty =
     ([], None)"
  by (subst parseBody_multipart [OF exampleMediaType_mixed example_boundary])
    (simp add: exampleParts_noHeader exampleErr_noHeader segmentParts_def Values_def
      afterLoop_def)

lemma example_ToLower_empty: "ToLower exampleEnv [] = []"
  by (simp add: exampleEnv_def)

lemma lower_base64: "map lowerChar ''base64'' = ''base64''"
  unfolding lowerChar_def by simp

lemma example_ToLower_base64: "ToLower exampleEnv ''base64'' = ''base64''"
proof -
  have "ToLower exampleEnv = map lowerChar" by (simp add: exampleEnv_def)
  then show ?thesis by (simp only: lower_base64)
qed

lemma example_UTF8: "UTF8 exampleEnv ''UTF-8'' data = Inr data"
  by (simp add: exampleEnv_def)

lemma example_DecodeString:
  "DecodeString exampleEnv ''aGVsbG8h!!!!'' =
     (''hello!'', Some (Err ''illegal base64 data at input byte 8''))"
  by (simp add: exampleEnv_def)

lemma contains_plain: "Contains ''text/plain'' ''text/plain''"
  by simp

text \<open>
  Claim C1 at a message with two \<^verbatim>\<open>text/plain\<close> parts, \<^verbatim>\<open>first\<close> and \<^verbatim>\<open>last\<close>: the
  plain-text field of the returned message is the data of the first part, because line
  213 assigns \<^verbatim>\<open>parts[0].Data\<close> to it after the loop. The claim expects \<^verbatim>\<open>last\<close>.
\<close>

theorem handleMessage_text_is_first_part:
  "map_sum id (\<lambda>(msg, errors). (Text msg, map Data (Parts msg), errors))
     (handleMessage exampleEnv exampleReader
        (rawOf ''multipart/mixed; boundary=b'' bodyTwoPlain)) =
   Inr (''first'', [''first'', ''last''], [])"
  by (simp add: handleMessage_def example_headers handleBody_def rawOf_Body parseBody_twoPlain
      handlePart_def decodeContentTransferEncoding_def example_ToLower_empty example_UTF8
      appendErr_def)

text \<open>
  Claim C2 at a \<^verbatim>\<open>text/plain\<close> part that declares base64 and holds
  \<^verbatim>\<open>aGVsbG8h!!!!\<close>: the error is recorded, but the data of the part is then the six
  bytes decoded before the illegal character, not the raw input that the claim expects.
\<close>

theorem handleMessage_bad_base64_data:
  "map_sum id (\<lambda>(msg, errors). (map Data (Parts msg), errors))
     (handleMessage exampleEnv exampleReader
        (rawOf ''multipart/mixed; boundary=b'' bodyBadBase64)) =
   Inr ([''hello!''],
        [Err ''body parser: failed decode base64 [msg: illegal base64 data at input byte 8]''])"
  by (simp add: handleMessage_def example_headers handleBody_def rawOf_Body parseBody_badBase64
      handlePart_def decodeContentTransferEncoding_def firstValue_def example_ToLower_base64
      example_DecodeString example_UTF8 appendErr_def)

text \<open>
  Claim C9 at a multipart body whose only segment has no \<^verbatim>\<open>Content-Type\<close>: the
  decomposition succeeds with an empty part list, and \<^verbatim>\<open>parts[0]\<close> on line 212
  panics. The claim expects a non-empty list.
\<close>

theorem handleMessage_panics_on_no_parts:
  "parseBody exampleEnv exampleReader ''multipart/mixed; boundary=b'' bodyNoHeader Map.empty =
     ([], None) \<and>
   handleMessage exampleEnv exampleReader (rawOf ''multipart/mixed; boundary=b'' bodyNoHeader) =
     Inl IndexOutOfRange"
  by (simp add: handleMessage_def example_headers handleBody_def rawOf_Body parseBody_noHeader)


text \<open>
  In general: whenever the decomposition succeeds and \<^verbatim>\<open>handleMessage\<close> returns, the
  text of the message is the data of its first part; and a failed base64 decoding
  returns what the decoder returned, not the bytes it was given.
\<close>

lemma handleBody_text_first:
  assumes "handleBody E rd r msg errors = Inr (m, errs)"
    and "ContentType msg \<noteq> []"
    and "snd (parseBody E rd (ContentType msg) (Body r) Map.empty) = None"
  shows "Parts m \<noteq> [] \<and> Text m = Data (hd (Parts m)) \<and> ContentType m = Type (hd (Parts m))"
  using assms
  by (cases "parseBody E rd (ContentType msg) (Body r) Map.empty")
    (auto simp: handleBody_def split: sum.splits list.splits)

lemma decodeContentTransferEncoding_base64_error:
  assumes "partHeaders ''Content-Transfer-Encoding'' = Some (h # hs)"
    and "ToLower E (ToLower E h) = ''base64''"
    and "DecodeString E toDecode = (decoded, Some err)"
  shows "decodeContentTransferEncoding E msgHeaders partHeaders toDecode =
     Inr (decoded, Some (Err (''body parser: failed decode base64 [msg: '' @ Error err @ '']'')))"
  using assms by (simp add: decodeContentTransferEncoding_def firstValue_def)

section \<open>Properties of \<^verbatim>\<open>parseAddressList\<close>\<close>

lemma Contains_single: "Contains s [c] \<longleftrightarrow> c \<in> set s"
  by (induction s) auto

lemma groupRuns_closeRuns:
  "CHR ''@'' \<notin> set (concat lsb) \<Longrightarrow> groupRuns lsb stb = closeRuns lsb stb"
proof (induction stb arbitrary: lsb)
  case Nil
  show ?case by simp
next
  case (Cons t rest)
  show ?case
  proof (cases "Contains (concat t) ''@'' \<or> rest = []")
    case True
    have "groupRuns [] rest = closeRuns [] rest"
      by (rule Cons.IH) simp
    with True Cons.prems show ?thesis
      by (auto simp: Contains_single Let_def)
  next
    case False
    then have "CHR ''@'' \<notin> set (concat (lsb @ t @ ['','']))"
      using Cons.prems by (simp add: Contains_single)
    from Cons.IH [OF this] False Cons.prems show ?thesis
      by (simp add: Contains_single Let_def)
  qed
qed

lemma splitFrom_no_separator:
  "s \<notin> set ts \<Longrightarrow> splitFrom cur ts s = (if cur @ ts \<noteq> [] then [cur @ ts] else [])"
  by (induction ts arbitrary: cur) auto

lemma splitFrom_first_separator:
  "s \<notin> set ts \<Longrightarrow> splitFrom cur (ts @ s # rest) s = (cur @ ts) # splitFrom [] rest s"
  by (induction ts arbitrary: cur) auto

lemma split_two_runs:
  assumes "s \<notin> set run1" "s \<notin> set run2" "run2 \<noteq> []"
  shows "split (run1 @ s # run2) s = [run1, run2]"
  using assms by (simp add: split_def splitFrom_first_separator splitFrom_no_separator)

lemma parseRuns_all:
  "snd (parseRuns E al vsb) = None \<Longrightarrow>
     map Inr (fst (parseRuns E al vsb)) = map Inr al @ map (parseAddress E) vsb"
proof (induction vsb arbitrary: al)
  case Nil
  show ?case by simp
next
  case (Cons ts rest)
  show ?case
  proof (cases "parseAddress E ts")
    case (Inl e)
    with Cons.prems show ?thesis by simp
  next
    case (Inr a)
    with Cons.prems have "snd (parseRuns E (al @ [a]) rest) = None" by simp
    from Cons.IH [OF this] Inr show ?thesis by simp
  qed
qed

lemma groupRuns_count:
  "length (groupRuns lsb stb) =
     length (filter (\<lambda>t. Contains (concat t) ''@'') (butlast stb)) + (if stb = [] then 0 else 1)"
  by (induction stb arbitrary: lsb) (auto simp: Let_def)

lemma closeRuns_count:
  "length (closeRuns [] stb) =
     length (filter (\<lambda>t. Contains (concat t) ''@'') (butlast stb)) + (if stb = [] then 0 else 1)"
  using groupRuns_count [of "[]" stb] groupRuns_closeRuns [of "[]" stb] by simp

text \<open>
  Claim C6. After tokenizing, \<^verbatim>\<open>parseAddressList\<close> parses exactly the runs that the
  rule of the specification closes (\<^term>\<open>closeRuns\<close>: a run is closed when it contains
  an \<^verbatim>\<open>@\<close> or is the last one, and the comma of a suppressed split is put back). The
  closed runs are as many as the comma-separated runs before the last that contain an
  \<^verbatim>\<open>@\<close>, plus the last run; when no run fails to parse, the result holds one address
  for every closed run, in order. Consequently a token sequence of two comma-separated
  runs, the first with an \<^verbatim>\<open>@\<close>, parses to exactly two addresses, whatever commas the
  quoted display name inside a token holds.
\<close>

theorem parseAddressList_closes_runs:
  "(tokenize E (case decodeRFC2047 E s of Inr dd \<Rightarrow> dd | Inl e \<Rightarrow> s) = Inr ts \<longrightarrow>
      parseAddressList E s = parseRuns E [] (closeRuns [] (split ts '','')) \<and>
      length (closeRuns [] (split ts '','')) =
        length (filter (\<lambda>t. Contains (concat t) ''@'') (butlast (split ts '',''))) +
        (if split ts '','' = [] then 0 else 1) \<and>
      (snd (parseAddressList E s) = None \<longrightarrow>
         map Inr (fst (parseAddressList E s)) =
           map (parseAddress E) (closeRuns [] (split ts '','')))) \<and>
   (tokenize E (case decodeRFC2047 E s of Inr dd \<Rightarrow> dd | Inl e \<Rightarrow> s) =
        Inr (run1 @ '','' # run2) \<and>
      '','' \<notin> set run1 \<and> '','' \<notin> set run2 \<and> run2 \<noteq> [] \<and>
      Contains (concat run1) ''@'' \<and>
      parseAddress E run1 = Inr a1 \<and> parseAddress E run2 = Inr a2 \<longrightarrow>
      parseAddressList E s = ([a1, a2], None))"
proof (intro conjI impI)
  assume tok: "tokenize E (case decodeRFC2047 E s of Inr dd \<Rightarrow> dd | Inl e \<Rightarrow> s) = Inr ts"
  then show eq: "parseAddressList E s = parseRuns E [] (closeRuns [] (split ts '',''))"
    by (simp add: parseAddressList_def groupRuns_closeRuns)
  show "length (closeRuns [] (split ts '','')) =
      length (filter (\<lambda>t. Contains (concat t) ''@'') (butlast (split ts '',''))) +
      (if split ts '','' = [] then 0 else 1)"
    by (rule closeRuns_count)
  assume "snd (parseAddressList E s) = None"
  with eq have "snd (parseRuns E [] (closeRuns [] (split ts '',''))) = None" by simp
  from parseRuns_all [OF this] eq
  show "map Inr (fst (parseAddressList E s)) =
      map (parseAddress E) (closeRuns [] (split ts '',''))"
    by simp
next
  assume a: "tokenize E (case decodeRFC2047 E s of Inr dd \<Rightarrow> dd | Inl e \<Rightarrow> s) =
        Inr (run1 @ '','' # run2) \<and>
      '','' \<notin> set run1 \<and> '','' \<notin> set run2 \<and> run2 \<noteq> [] \<and>
      Contains (concat run1) ''@'' \<and>
      parseAddress E run1 = Inr a1 \<and> parseAddress E run2 = Inr a2"
  then have "split (run1 @ '','' # run2) '','' = [run1, run2]"
    by (simp add: split_two_runs)
  with a show "parseAddressList E s = ([a1, a2], None)"
    by (simp add: parseAddressList_def)
qed

text \<open>The address list \<^verbatim>\<open>"Doe, John" <john@x.com>, jane@y.com\<close> gives two addresses.\<close>

theorem parseAddressList_closes_runs_witness:
  "parseAddressList exampleEnv exampleAddressList =
     ([Mailbox (MailboxOf (Some ''Doe, John'') ''john'' ''x.com''),
       Mailbox (MailboxOf None ''jane'' ''y.com'')], None) \<and>
   closeRuns [] (split (exampleRun1 @ '','' # exampleRun2) '','') = [exampleRun1, exampleRun2]"
proof -
  have tok: "tokenize exampleEnv
      (case decodeRFC2047 exampleEnv exampleAddressList of Inr dd \<Rightarrow> dd
       | Inl e \<Rightarrow> exampleAddressList) = Inr (exampleRun1 @ '','' # exampleRun2)"
    by (simp add: exampleEnv_def)
  have p1: "parseAddress exampleEnv exampleRun1 =
      Inr (Mailbox (MailboxOf (Some ''Doe, John'') ''john'' ''x.com''))"
    by (simp add: exampleEnv_def)
  have p2: "parseAddress exampleEnv exampleRun2 =
      Inr (Mailbox (MailboxOf None ''jane'' ''y.com''))"
    by (simp add: exampleEnv_def exampleRun1_def exampleRun2_def)
  have runs: "'','' \<notin> set exampleRun1 \<and> '','' \<notin> set exampleRun2 \<and> exampleRun2 \<noteq> [] \<and>
      Contains (concat exampleRun1) ''@''"
    by (simp add: exampleRun1_def exampleRun2_def)
  have closed: "closeRuns [] (split (exampleRun1 @ '','' # exampleRun2) '','') =
      [exampleRun1, exampleRun2]"
    using runs by (simp add: split_two_runs)
  from parseAddressList_closes_runs [of exampleEnv exampleAddressList
      "exampleRun1 @ '','' # exampleRun2" exampleRun1 exampleRun2
      "Mailbox (MailboxOf (Some ''Doe, John'') ''john'' ''x.com'')"
      "Mailbox (MailboxOf None ''jane'' ''y.com'')"] tok p1 p2 runs closed
  show ?thesis by simp
qed

end
